theory Spec2Isabelle
  imports Complex_Main
begin

section \<open>The particle system of physics_simulator.py\<close>

text \<open>
  The class \<open>ParticleSystem\<close> of \<open>src/physics_simulator.py\<close> (lines 8 to 66) is embedded
  function by function. Conventions of the embedding:
  \<^item> a finite Python or numpy float is a \<open>real\<close>: rounding and overflow of IEEE doubles are
    not modelled. The one non-finite value the code can compute from finite inputs, the NaN
    that \<open>np.sqrt\<close> returns on a negative argument, is modelled by \<open>npfloat\<close>;
  \<^item> an array of shape \<open>(k, 2)\<close> is a list of pairs, an array of shape \<open>(k,)\<close> a list;
  \<^item> an exception is the left summand of the result; in-place mutation returns the new
    object;
  \<^item> the random draws are a parameter (\<open>random_source\<close>); the checks that the library
    calls make on their arguments are written out.
\<close>

subsection \<open>Errors, floats and library calls\<close>

datatype py_error = ValueError | ZeroDivisionError

datatype npfloat = Fin real | NaN

text \<open>\<open>a / b\<close> on Python floats raises on a zero divisor.\<close>

definition py_div :: "real \<Rightarrow> real \<Rightarrow> py_error + real" where
  "py_div a b = (if b = 0 then Inl ZeroDivisionError else Inr (a / b))"

text \<open>\<open>np.sqrt\<close> returns NaN (with a warning, no exception) on a negative argument.\<close>

definition np_sqrt :: "real \<Rightarrow> npfloat" where
  "np_sqrt x = (if x < 0 then NaN else Fin (sqrt x))"

text \<open>The product of a finite constant and a possibly-NaN float.\<close>

fun fl_mul :: "real \<Rightarrow> npfloat \<Rightarrow> npfloat" where
  "fl_mul c (Fin x) = Fin (c * x)"
| "fl_mul c NaN = NaN"

text \<open>
  The random draws: the rows of \<open>np.random.rand(k, 2)\<close>, the draws of the Maxwell
  distribution of scale 1, and the entries of \<open>np.random.rand(k)\<close>.
\<close>

record random_source =
  rand_rows :: "nat \<Rightarrow> real \<times> real"
  maxwell_unit :: "nat \<Rightarrow> real"
  rand_entries :: "nat \<Rightarrow> real"

text \<open>\<open>np.random.rand(k, 2)\<close>: numpy refuses a negative dimension; \<open>k = 0\<close> gives an
  empty array.\<close>

definition np_random_rand2 :: "random_source \<Rightarrow> int \<Rightarrow> py_error + (real \<times> real) list" where
  "np_random_rand2 rs k =
     (if k < 0 then Inl ValueError else Inr (map (rand_rows rs) [0..<nat k]))"

text \<open>\<open>np.random.rand(k)\<close>.\<close>

definition np_random_rand :: "random_source \<Rightarrow> int \<Rightarrow> py_error + real list" where
  "np_random_rand rs k =
     (if k < 0 then Inl ValueError else Inr (map (rand_entries rs) [0..<nat k]))"

text \<open>
  \<open>maxwell.rvs(scale=scale, size=k)\<close>: scipy raises \<open>ValueError\<close> unless \<open>scale >= 0\<close>
  holds (it does not for NaN), and returns the unit draws times \<open>scale\<close> (all zero for
  \<open>scale = 0\<close>).
\<close>

definition maxwell_rvs :: "random_source \<Rightarrow> npfloat \<Rightarrow> int \<Rightarrow> py_error + real list" where
  "maxwell_rvs rs scale k =
     (case scale of
        NaN \<Rightarrow> Inl ValueError
      | Fin sc \<Rightarrow>
          if sc < 0 then Inl ValueError
          else if k < 0 then Inl ValueError
          else Inr (map (\<lambda>i. maxwell_unit rs i * sc) [0..<nat k]))"

subsection \<open>The object\<close>

record ParticleSystem =
  n :: int
  simulation_mode :: string
  physical_param :: real
  box_size :: real
  pos :: "(real \<times> real) list"
  vel :: "(real \<times> real) list"

subsection \<open>\<open>_initialize_velocities\<close> (lines 24 to 33)\<close>

text \<open>Lines 31 to 33, as a function of the local variable \<open>scale\<close>. Both arrays come
  from calls of size \<open>self.n\<close>, so \<open>np.column_stack\<close> pairs them entry by entry.\<close>

definition velocities_from_scale ::
  "random_source \<Rightarrow> npfloat \<Rightarrow> ParticleSystem \<Rightarrow> py_error + ParticleSystem" where
  "velocities_from_scale rs scale s =
     (case maxwell_rvs rs scale (n s) of
        Inl e \<Rightarrow> Inl e
      | Inr speed \<Rightarrow>
          (case np_random_rand rs (n s) of
             Inl e \<Rightarrow> Inl e
           | Inr r \<Rightarrow>
               (let angle = map (\<lambda>a. a * 2 * pi) r
                in Inr (s\<lparr>vel := zip (map2 (\<lambda>v a. v * cos a) speed angle)
                                     (map2 (\<lambda>v a. v * sin a) speed angle)\<rparr>))))"

definition initialize_velocities ::
  "random_source \<Rightarrow> ParticleSystem \<Rightarrow> py_error + ParticleSystem" where
  "initialize_velocities rs s =
     (case (if simulation_mode s = ''temperature'' then Inr (Fin (physical_param s))
            else (case py_div 1 (physical_param s) of
                    Inl e \<Rightarrow> Inl e
                  | Inr q \<Rightarrow> Inr (np_sqrt q))) of
        Inl e \<Rightarrow> Inl e
      | Inr scale \<Rightarrow> velocities_from_scale rs scale s)"

subsection \<open>\<open>__init__\<close> (lines 9 to 22)\<close>

text \<open>The attribute \<open>vel\<close> does not exist before \<open>_initialize_velocities\<close> has run; it
  is the empty list here.\<close>

definition ParticleSystem_init ::
  "random_source \<Rightarrow> int \<Rightarrow> string \<Rightarrow> real \<Rightarrow> py_error + ParticleSystem" where
  "ParticleSystem_init rs n0 mode p =
     (case np_random_rand2 rs n0 of
        Inl e \<Rightarrow> Inl e
      | Inr u \<Rightarrow>
          initialize_velocities rs
            \<lparr>n = n0, simulation_mode = mode, physical_param = p, box_size = 15,
             pos = map (\<lambda>(a, b). (a * 15, b * 15)) u, vel = []\<rparr>)"

subsection \<open>\<open>update\<close> and \<open>_handle_boundary\<close> (lines 35 to 49)\<close>

text \<open>\<open>np.where(c, a, b)\<close> on three arrays of one length.\<close>

definition np_where :: "bool list \<Rightarrow> real list \<Rightarrow> real list \<Rightarrow> real list" where
  "np_where c a b = map (\<lambda>(t, x, y). if t then x else y) (zip c (zip a b))"

text \<open>The two assignments of \<open>_handle_boundary\<close>, column 0 and then column 1.\<close>

definition handle_boundary :: "ParticleSystem \<Rightarrow> ParticleSystem" where
  "handle_boundary s =
     (let v0 = np_where (map (\<lambda>x. x < 0 \<or> x > box_size s) (map fst (pos s)))
                        (map uminus (map fst (vel s))) (map fst (vel s));
          s1 = s\<lparr>vel := zip v0 (map snd (vel s))\<rparr>;
          v1 = np_where (map (\<lambda>y. y < 0 \<or> y > box_size s1) (map snd (pos s1)))
                        (map uminus (map snd (vel s1))) (map snd (vel s1))
      in s1\<lparr>vel := zip (map fst (vel s1)) v1\<rparr>)"

text \<open>\<open>self.pos += self.vel * 0.03\<close> raises when the two arrays differ in shape: no
  broadcast of \<open>vel\<close> fits the in-place sum and the assignments that follow.\<close>

definition update :: "ParticleSystem \<Rightarrow> py_error + ParticleSystem" where
  "update s =
     (if length (pos s) \<noteq> length (vel s) then Inl ValueError
      else Inr (handle_boundary
                  (s\<lparr>pos := map2 (\<lambda>(x, y) (vx, vy). (x + vx * 0.03, y + vy * 0.03))
                                 (pos s) (vel s)\<rparr>)))"

text \<open>The caller's loop: \<open>k\<close> calls of \<open>update\<close>, one per frame.\<close>

fun update_times :: "nat \<Rightarrow> ParticleSystem \<Rightarrow> py_error + ParticleSystem" where
  "update_times 0 s = Inr s"
| "update_times (Suc k) s =
     (case update s of Inl e \<Rightarrow> Inl e | Inr s' \<Rightarrow> update_times k s')"

subsection \<open>\<open>speeds\<close> (lines 51 to 54)\<close>

definition speeds :: "ParticleSystem \<Rightarrow> real list" where
  "speeds s = map (\<lambda>(vx, vy). sqrt (vx\<^sup>2 + vy\<^sup>2)) (vel s)"

subsection \<open>\<open>get_characteristic_speeds\<close> (lines 56 to 66)\<close>

text \<open>Lines 63 to 66, as a function of the local variable \<open>scale\<close>.\<close>

definition speeds_from_scale :: "npfloat \<Rightarrow> npfloat \<times> npfloat \<times> npfloat" where
  "speeds_from_scale scale =
     (let v_p = fl_mul (sqrt 2) scale;
          v_mean = fl_mul (2 * sqrt (2 / pi)) scale;
          v_rms = fl_mul (sqrt 3) scale
      in (v_p, v_mean, v_rms))"

definition get_characteristic_speeds ::
  "ParticleSystem \<Rightarrow> py_error + (npfloat \<times> npfloat \<times> npfloat)" where
  "get_characteristic_speeds s =
     (case (if simulation_mode s = ''temperature'' then Inr (Fin (physical_param s))
            else (case py_div 1 (physical_param s) of
                    Inl e \<Rightarrow> Inl e
                  | Inr q \<Rightarrow> Inr (np_sqrt q))) of
        Inl e \<Rightarrow> Inl e
      | Inr scale \<Rightarrow> Inr (speeds_from_scale scale))"

subsection \<open>The scale of the specification\<close>

text \<open>The specification's modes and its mapping from the physical parameter to the scale,
  written from the specification's words, with the string that stands for each mode in the
  code.\<close>

datatype spec_mode = Temperature | Mass

fun mode_string :: "spec_mode \<Rightarrow> string" where
  "mode_string Temperature = ''temperature''"
| "mode_string Mass = ''mass''"

fun spec_scale :: "spec_mode \<Rightarrow> real \<Rightarrow> real" where
  "spec_scale Temperature p = p"
| "spec_scale Mass p = sqrt (1 / p)"

subsection \<open>Shapes and example objects\<close>

text \<open>The two arrays have \<open>self.n\<close> rows each.\<close>

definition shape_ok :: "ParticleSystem \<Rightarrow> bool" where
  "shape_ok s = (int (length (pos s)) = n s \<and> int (length (vel s)) = n s)"

text \<open>One particle next to the right wall, moving towards it.\<close>

definition example_state :: ParticleSystem where
  "example_state =
     \<lparr>n = 1, simulation_mode = ''temperature'', physical_param = 1, box_size = 15,
      pos = [(15 - 0.01, 5)], vel = [(10, - 2)]\<rparr>"

text \<open>The same particle one step later.\<close>

definition example_state_moved :: ParticleSystem where
  "example_state_moved =
     \<lparr>n = 1, simulation_mode = ''temperature'', physical_param = 1, box_size = 15,
      pos = [(15 + 0.29, 5 - 0.06)], vel = [(- 10, - 2)]\<rparr>"

text \<open>A random source whose draws are constant.\<close>

definition constant_source :: random_source where
  "constant_source =
     \<lparr>rand_rows = (\<lambda>i. (1 / 2, 1 / 2)), maxwell_unit = (\<lambda>i. 1), rand_entries = (\<lambda>i. 0)\<rparr>"

text \<open>What \<open>ParticleSystem(2, 'temperature', 3)\<close> builds from the constant source.\<close>

definition constructed_state :: ParticleSystem where
  "constructed_state =
     \<lparr>n = 2, simulation_mode = ''temperature'', physical_param = 3, box_size = 15,
      pos = [(15 / 2, 15 / 2), (15 / 2, 15 / 2)], vel = [(3, 0), (3, 0)]\<rparr>"

text \<open>What \<open>ParticleSystem(0, 'temperature', 1)\<close> builds.\<close>

definition empty_state :: ParticleSystem where
  "empty_state =
     \<lparr>n = 0, simulation_mode = ''temperature'', physical_param = 1, box_size = 15,
      pos = [], vel = []\<rparr>"

text \<open>What \<open>ParticleSystem(2, 'temperature', 0)\<close> builds from the constant source.\<close>

definition still_state :: ParticleSystem where
  "still_state =
     \<lparr>n = 2, simulation_mode = ''temperature'', physical_param = 0, box_size = 15,
      pos = [(15 / 2, 15 / 2), (15 / 2, 15 / 2)], vel = [(0, 0), (0, 0)]\<rparr>"

section \<open>Properties\<close>

subsection \<open>Bounds on the constants\<close>

lemma pi_ge_three: "3 \<le> pi"
proof -
  have "sin (pi / 6) \<le> pi / 6"
    by (rule sin_x_le_x) simp
  then show ?thesis
    by (simp add: sin_30)
qed

lemma twice_sqrt: "2 * sqrt x = sqrt (4 * x)"
  by (simp add: real_sqrt_mult)

lemma v_p_less_v_mean: "sqrt 2 < 2 * sqrt (2 / pi)"
proof -
  have "2 < 4 * (2 / pi)"
    using pi_less_4 pi_gt_zero by (simp add: field_simps)
  then have "sqrt 2 < sqrt (4 * (2 / pi))"
    by (simp only: real_sqrt_less_iff)
  then show ?thesis
    by (simp only: twice_sqrt)
qed

lemma v_mean_less_v_rms: "2 * sqrt (2 / pi) < sqrt 3"
proof -
  have "4 * (2 / pi) < 3"
    using pi_ge_three pi_gt_zero by (simp add: field_simps)
  then have "sqrt (4 * (2 / pi)) < sqrt 3"
    by (simp only: real_sqrt_less_iff)
  then show ?thesis
    by (simp only: twice_sqrt)
qed

subsection \<open>One step of motion\<close>

lemma handle_boundary_fields:
  "n (handle_boundary s) = n s" "simulation_mode (handle_boundary s) = simulation_mode s"
  "physical_param (handle_boundary s) = physical_param s" "box_size (handle_boundary s) = box_size s"
  "pos (handle_boundary s) = pos s"
  by (simp_all add: handle_boundary_def Let_def)

lemma handle_boundary_length:
  "length (pos s) = length (vel s) \<Longrightarrow> length (vel (handle_boundary s)) = length (vel s)"
  by (simp add: handle_boundary_def Let_def np_where_def)

lemma handle_boundary_nth:
  assumes "length (pos s) = length (vel s)" "i < length (vel s)"
  shows "vel (handle_boundary s) ! i =
           (if fst (pos s ! i) < 0 \<or> fst (pos s ! i) > box_size s then - fst (vel s ! i) else fst (vel s ! i),
            if snd (pos s ! i) < 0 \<or> snd (pos s ! i) > box_size s then - snd (vel s ! i) else snd (vel s ! i))"
  using assms by (simp add: handle_boundary_def Let_def np_where_def)

lemma update_Inr_shape: "update s = Inr s' \<Longrightarrow> length (pos s) = length (vel s)"
  by (simp add: update_def split: if_splits)

lemma update_fields:
  assumes "update s = Inr s'"
  shows "n s' = n s" "simulation_mode s' = simulation_mode s"
    "physical_param s' = physical_param s" "box_size s' = box_size s"
    "length (pos s') = length (pos s)" "length (vel s') = length (vel s)"
  using assms by (auto simp add: update_def handle_boundary_fields handle_boundary_length split: if_splits)

lemma update_pos_nth:
  assumes "update s = Inr s'" "i < length (pos s)"
  shows "pos s' ! i = (fst (pos s ! i) + fst (vel s ! i) * 0.03,
                       snd (pos s ! i) + snd (vel s ! i) * 0.03)"
  using assms
  by (auto simp add: update_def handle_boundary_fields split_beta split: if_splits)

lemma update_vel_nth:
  assumes "update s = Inr s'" "i < length (pos s)"
  shows "vel s' ! i =
           (if fst (pos s' ! i) < 0 \<or> fst (pos s' ! i) > box_size s then - fst (vel s ! i) else fst (vel s ! i),
            if snd (pos s' ! i) < 0 \<or> snd (pos s' ! i) > box_size s then - snd (vel s ! i) else snd (vel s ! i))"
proof -
  from assms(1) have len: "length (pos s) = length (vel s)"
    by (rule update_Inr_shape)
  define t where "t = s\<lparr>pos := map2 (\<lambda>(x, y) (vx, vy). (x + vx * 0.03, y + vy * 0.03)) (pos s) (vel s)\<rparr>"
  have s': "s' = handle_boundary t"
    using assms(1) len by (simp add: update_def t_def)
  have tl: "length (pos t) = length (vel t)" "i < length (vel t)" "vel t = vel s" "box_size t = box_size s"
    using len assms(2) by (simp_all add: t_def)
  show ?thesis
    unfolding s' using handle_boundary_nth [OF tl(1) tl(2)]
    by (simp add: handle_boundary_fields tl)
qed

lemma update_total: "length (pos s) = length (vel s) \<Longrightarrow> \<exists>s'. update s = Inr s'"
  by (simp add: update_def)

text \<open>
  Claim C1. For every state whose two arrays have the same number of rows, one call of
  \<open>update\<close> returns normally; it moves every particle by velocity times 0.03 on both
  coordinates, and then, on each axis by itself, negates the velocity component exactly
  when the moved coordinate is below 0 or above \<open>box_size\<close>; the position is the moved one,
  not clamped. In particular, with \<open>box_size = 15\<close>, a particle at \<open>x = 15 - 0.01\<close> with
  \<open>vx = 10\<close> ends at \<open>x = 15 + 0.29\<close> with \<open>vx = - 10\<close>.
\<close>

theorem update_translates_then_reflects:
  assumes "length (pos s) = length (vel s)"
  shows "\<exists>s'. update s = Inr s' \<and> length (pos s') = length (pos s) \<and>
           length (vel s') = length (vel s) \<and> box_size s' = box_size s \<and>
           (\<forall>i<length (pos s).
              pos s' ! i = (fst (pos s ! i) + fst (vel s ! i) * 0.03,
                            snd (pos s ! i) + snd (vel s ! i) * 0.03) \<and>
              fst (vel s' ! i) =
                (if fst (pos s' ! i) < 0 \<or> fst (pos s' ! i) > box_size s
                 then - fst (vel s ! i) else fst (vel s ! i)) \<and>
              snd (vel s' ! i) =
                (if snd (pos s' ! i) < 0 \<or> snd (pos s' ! i) > box_size s
                 then - snd (vel s ! i) else snd (vel s ! i)) \<and>
              (box_size s = 15 \<and> fst (pos s ! i) = 15 - 0.01 \<and> fst (vel s ! i) = 10 \<longrightarrow>
                 fst (pos s' ! i) = 15 + 0.29 \<and> fst (vel s' ! i) = - 10))"
proof -
  from update_total [OF assms] obtain s' where u: "update s = Inr s'" ..
  have "pos s' ! i = (fst (pos s ! i) + fst (vel s ! i) * 0.03,
                      snd (pos s ! i) + snd (vel s ! i) * 0.03)" if "i < length (pos s)" for i
    using update_pos_nth [OF u that] .
  moreover have "vel s' ! i =
           (if fst (pos s' ! i) < 0 \<or> fst (pos s' ! i) > box_size s then - fst (vel s ! i) else fst (vel s ! i),
            if snd (pos s' ! i) < 0 \<or> snd (pos s' ! i) > box_size s then - snd (vel s ! i) else snd (vel s ! i))"
    if "i < length (pos s)" for i
    using update_vel_nth [OF u that] .
  ultimately show ?thesis
    using u update_fields [OF u] by (intro exI [of _ s']) auto
qed

theorem update_translates_then_reflects_witness:
  "length (pos example_state) = length (vel example_state) \<and>
   (\<exists>s'. update example_state = Inr s' \<and> pos s' ! 0 = (15 + 0.29, 5 - 0.06) \<and>
      vel s' ! 0 = (- 10, - 2))"
  using update_translates_then_reflects [of example_state]
  by (auto simp add: example_state_def prod_eq_iff)

subsection \<open>Speeds\<close>

lemma speeds_length: "length (speeds s) = length (vel s)"
  by (simp add: speeds_def)

lemma speeds_nth:
  "i < length (vel s) \<Longrightarrow> speeds s ! i = sqrt ((fst (vel s ! i))\<^sup>2 + (snd (vel s ! i))\<^sup>2)"
  by (simp add: speeds_def split_beta)

lemma update_vel_cases:
  assumes "update s = Inr s'" "i < length (vel s)"
  shows "(fst (vel s' ! i) = fst (vel s ! i) \<or> fst (vel s' ! i) = - fst (vel s ! i)) \<and>
         (snd (vel s' ! i) = snd (vel s ! i) \<or> snd (vel s' ! i) = - snd (vel s ! i))"
proof -
  from assms have "i < length (pos s)"
    using update_Inr_shape [OF assms(1)] by simp
  from update_vel_nth [OF assms(1) this] show ?thesis
    by simp
qed

lemma update_speeds_nth:
  assumes "update s = Inr s'" "i < length (vel s)"
  shows "speeds s' ! i = speeds s ! i"
proof -
  have "i < length (vel s')"
    using assms update_fields(6) [OF assms(1)] by simp
  moreover have "(fst (vel s' ! i))\<^sup>2 = (fst (vel s ! i))\<^sup>2" "(snd (vel s' ! i))\<^sup>2 = (snd (vel s ! i))\<^sup>2"
    using update_vel_cases [OF assms] by auto
  ultimately show ?thesis
    using assms(2) by (simp add: speeds_nth)
qed

lemma update_speeds: 
  assumes "update s = Inr s'"
  shows "speeds s' = speeds s"
proof (rule nth_equalityI)
  show "length (speeds s') = length (speeds s)"
    using update_fields(6) [OF assms] by (simp add: speeds_length)
next
  fix i assume "i < length (speeds s')"
  then have "i < length (vel s)"
    using update_fields(6) [OF assms] by (simp add: speeds_length)
  then show "speeds s' ! i = speeds s ! i"
    by (rule update_speeds_nth [OF assms])
qed

lemma update_example: "update example_state = Inr example_state_moved"
  by (simp add: update_def example_state_def example_state_moved_def handle_boundary_def
      np_where_def Let_def)

text \<open>
  Claim C5. For every state, \<open>speeds\<close> returns one value per row of the current \<open>vel\<close>
  (so \<open>self.n\<close> values when the arrays have \<open>self.n\<close> rows); the i-th value is
  \<open>sqrt (vx\<^sup>2 + vy\<^sup>2)\<close> for the i-th current velocity, and it is not negative. It is a
  function of the current velocities alone: nothing is cached.
\<close>

theorem speeds_are_norms:
  "length (speeds s) = length (vel s) \<and>
   (shape_ok s \<longrightarrow> int (length (speeds s)) = n s) \<and>
   (\<forall>i<length (vel s).
      speeds s ! i = sqrt ((fst (vel s ! i))\<^sup>2 + (snd (vel s ! i))\<^sup>2) \<and> 0 \<le> speeds s ! i)"
  by (simp add: speeds_length speeds_nth shape_ok_def)

theorem speeds_are_norms_witness:
  "shape_ok example_state \<and> length (speeds example_state) = 1 \<and>
   speeds example_state ! 0 = sqrt 104 \<and> 0 \<le> speeds example_state ! 0"
  using speeds_are_norms [of example_state]
  by (simp add: example_state_def shape_ok_def)

text \<open>
  Claim C6. \<open>update\<close> never resamples: after one call, every velocity component of every
  particle is its previous value or the negation of it, and so the speed of every particle
  is what it was.
\<close>

theorem update_never_resamples:
  assumes "update s = Inr s'"
  shows "length (vel s') = length (vel s) \<and>
         (\<forall>i<length (vel s).
            (fst (vel s' ! i) = fst (vel s ! i) \<or> fst (vel s' ! i) = - fst (vel s ! i)) \<and>
            (snd (vel s' ! i) = snd (vel s ! i) \<or> snd (vel s' ! i) = - snd (vel s ! i)) \<and>
            speeds s' ! i = speeds s ! i)"
  using update_fields(6) [OF assms] update_vel_cases [OF assms] update_speeds_nth [OF assms]
  by simp

theorem update_never_resamples_witness:
  "update example_state = Inr example_state_moved \<and>
   fst (vel example_state_moved ! 0) = - fst (vel example_state ! 0) \<and>
   snd (vel example_state_moved ! 0) = snd (vel example_state ! 0) \<and>
   speeds example_state_moved ! 0 = speeds example_state ! 0"
  using update_never_resamples [OF update_example] update_example
  by (simp add: example_state_def example_state_moved_def)

text \<open>
  Claim C9 says that two reads of \<open>speeds\<close> around an \<open>update\<close> in which a velocity
  component changed sign must differ. They do not: the particle of \<open>example_state\<close> is
  reflected on the x axis and its speed is the same before and after.
\<close>

theorem speeds_differ_counterexample:
  "update example_state = Inr example_state_moved \<and>
   vel example_state = [(10, - 2)] \<and> vel example_state_moved = [(- 10, - 2)] \<and>
   speeds example_state_moved = speeds example_state"
  using update_example
  by (simp add: example_state_def example_state_moved_def speeds_def)

text \<open>
  Claim C9, amended. Two reads of \<open>speeds\<close> around one \<open>update\<close> return the same
  sequence, whether or not a velocity component changed sign in between: the norm does not
  see the sign.
\<close>

theorem speeds_same_after_update:
  assumes "update s = Inr s'"
  shows "speeds s' = speeds s"
  using assms by (rule update_speeds)

theorem speeds_same_after_update_witness:
  "update example_state = Inr example_state_moved \<and>
   speeds example_state_moved = speeds example_state \<and> speeds example_state = [sqrt 104]"
  using speeds_same_after_update [OF update_example] update_example
  by (simp add: example_state_def example_state_moved_def speeds_def)

subsection \<open>The scale and the characteristic speeds\<close>

lemma speeds_from_scale_Fin:
  "speeds_from_scale (Fin sc) = (Fin (sqrt 2 * sc), Fin (2 * sqrt (2 / pi) * sc), Fin (sqrt 3 * sc))"
  by (simp add: speeds_from_scale_def)

lemma get_characteristic_speeds_temperature:
  "simulation_mode s = ''temperature'' \<Longrightarrow>
   get_characteristic_speeds s = Inr (speeds_from_scale (Fin (physical_param s)))"
  by (simp add: get_characteristic_speeds_def)

lemma get_characteristic_speeds_other:
  "simulation_mode s \<noteq> ''temperature'' \<Longrightarrow> 0 < physical_param s \<Longrightarrow>
   get_characteristic_speeds s = Inr (speeds_from_scale (Fin (sqrt (1 / physical_param s))))"
  by (simp add: get_characteristic_speeds_def py_div_def np_sqrt_def)

lemma initialize_velocities_temperature:
  "simulation_mode s = ''temperature'' \<Longrightarrow>
   initialize_velocities rs s = velocities_from_scale rs (Fin (physical_param s)) s"
  by (simp add: initialize_velocities_def)

lemma initialize_velocities_other:
  "simulation_mode s \<noteq> ''temperature'' \<Longrightarrow> 0 < physical_param s \<Longrightarrow>
   initialize_velocities rs s = velocities_from_scale rs (Fin (sqrt (1 / physical_param s))) s"
  by (simp add: initialize_velocities_def py_div_def np_sqrt_def)

lemma get_characteristic_speeds_cong:
  "simulation_mode s = simulation_mode t \<Longrightarrow> physical_param s = physical_param t \<Longrightarrow>
   get_characteristic_speeds s = get_characteristic_speeds t"
  by (simp add: get_characteristic_speeds_def)

lemma update_times_fields:
  "update_times j s = Inr s' \<Longrightarrow>
   n s' = n s \<and> simulation_mode s' = simulation_mode s \<and>
   physical_param s' = physical_param s \<and> box_size s' = box_size s"
proof (induction j arbitrary: s)
  case 0
  then show ?case by simp
next
  case (Suc j)
  then obtain t where t: "update s = Inr t" "update_times j t = Inr s'"
    by (auto split: sum.splits)
  from Suc.IH [OF t(2)] update_fields [OF t(1)] show ?case
    by simp
qed

text \<open>
  Claim C2. For every positive \<open>physical_param\<close>, the scale that
  \<open>_initialize_velocities\<close> samples with and the scale that
  \<open>get_characteristic_speeds\<close> computes with are the specification's scale:
  \<open>physical_param\<close> in temperature mode, \<open>sqrt (1 / physical_param)\<close> in mass mode.
\<close>

theorem scale_mapping:
  assumes "0 < physical_param s" and "simulation_mode s = mode_string m"
  shows "initialize_velocities rs s =
           velocities_from_scale rs (Fin (spec_scale m (physical_param s))) s \<and>
         get_characteristic_speeds s =
           Inr (speeds_from_scale (Fin (spec_scale m (physical_param s))))"
proof (cases m)
  case Temperature
  with assms show ?thesis
    by (simp add: initialize_velocities_temperature get_characteristic_speeds_temperature)
next
  case Mass
  with assms show ?thesis
    by (simp add: initialize_velocities_other get_characteristic_speeds_other)
qed

theorem scale_mapping_witness:
  "0 < physical_param (example_state\<lparr>simulation_mode := ''mass'', physical_param := 4\<rparr>) \<and>
   get_characteristic_speeds (example_state\<lparr>simulation_mode := ''mass'', physical_param := 4\<rparr>) =
     Inr (speeds_from_scale (Fin (sqrt (1 / 4)))) \<and>
   get_characteristic_speeds example_state = Inr (speeds_from_scale (Fin 1))"
  using scale_mapping [of "example_state\<lparr>simulation_mode := ''mass'', physical_param := 4\<rparr>" Mass]
    scale_mapping [of example_state Temperature]
  by (simp add: example_state_def)

text \<open>
  Claim C3. For every mode and positive \<open>physical_param\<close>,
  \<open>get_characteristic_speeds\<close> returns the triple
  \<open>(sqrt 2 * scale, 2 * sqrt (2 / pi) * scale, sqrt 3 * scale)\<close> for the scale of the mode;
  the result is the same for any other particle count and arrays, and after any number of
  calls of \<open>update\<close>.
\<close>

theorem characteristic_speeds_closed_form:
  assumes "0 < physical_param s" and "simulation_mode s = mode_string m"
  shows "get_characteristic_speeds s =
           Inr (Fin (sqrt 2 * spec_scale m (physical_param s)),
                Fin (2 * sqrt (2 / pi) * spec_scale m (physical_param s)),
                Fin (sqrt 3 * spec_scale m (physical_param s))) \<and>
         get_characteristic_speeds (s\<lparr>n := k, pos := ps, vel := vs\<rparr>) =
           get_characteristic_speeds s \<and>
         (update_times j s = Inr s' \<longrightarrow>
            get_characteristic_speeds s' = get_characteristic_speeds s)"
proof (intro conjI impI)
  show "get_characteristic_speeds s =
           Inr (Fin (sqrt 2 * spec_scale m (physical_param s)),
                Fin (2 * sqrt (2 / pi) * spec_scale m (physical_param s)),
                Fin (sqrt 3 * spec_scale m (physical_param s)))"
    using assms
    by (cases m)
      (simp_all add: get_characteristic_speeds_temperature get_characteristic_speeds_other
        speeds_from_scale_Fin)
  show "get_characteristic_speeds (s\<lparr>n := k, pos := ps, vel := vs\<rparr>) =
           get_characteristic_speeds s"
    by (rule get_characteristic_speeds_cong) simp_all
  show "get_characteristic_speeds s' = get_characteristic_speeds s"
    if "update_times j s = Inr s'"
    using update_times_fields [OF that] by (intro get_characteristic_speeds_cong) simp_all
qed

theorem characteristic_speeds_closed_form_witness:
  "0 < physical_param example_state \<and>
   update_times 1 example_state = Inr example_state_moved \<and>
   get_characteristic_speeds example_state = Inr (Fin (sqrt 2), Fin (2 * sqrt (2 / pi)), Fin (sqrt 3)) \<and>
   get_characteristic_speeds example_state_moved = get_characteristic_speeds example_state"
proof -
  have u: "update_times 1 example_state = Inr example_state_moved"
    by (simp add: update_example)
  have p: "0 < physical_param example_state"
    by (simp add: example_state_def)
  have m: "simulation_mode example_state = mode_string Temperature"
    by (simp add: example_state_def)
  have pp: "physical_param example_state = 1"
    by (simp add: example_state_def)
  from characteristic_speeds_closed_form [OF p m, where j = 1 and s' = example_state_moved] u p
  show ?thesis
    by (simp add: pp)
qed

text \<open>
  Claim C8. For every positive scale the three characteristic speeds are strictly ordered:
  \<open>sqrt 2 * scale < 2 * sqrt (2 / pi) * scale < sqrt 3 * scale\<close>.
\<close>

theorem characteristic_speeds_ordered:
  assumes "0 < sc"
  shows "\<exists>v_p v_mean v_rms.
           speeds_from_scale (Fin sc) = (Fin v_p, Fin v_mean, Fin v_rms) \<and>
           v_p = sqrt 2 * sc \<and> v_mean = 2 * sqrt (2 / pi) * sc \<and> v_rms = sqrt 3 * sc \<and>
           v_p < v_mean \<and> v_mean < v_rms"
  using assms v_p_less_v_mean v_mean_less_v_rms
  by (simp add: speeds_from_scale_Fin)

theorem characteristic_speeds_ordered_witness:
  "(0::real) < 2 \<and>
   (\<exists>v_p v_mean v_rms.
      speeds_from_scale (Fin 2) = (Fin v_p, Fin v_mean, Fin v_rms) \<and>
      v_p < v_mean \<and> v_mean < v_rms)"
  using characteristic_speeds_ordered [of 2]
  by auto

subsection \<open>Construction\<close>

lemma velocities_from_scale_Inr:
  assumes "velocities_from_scale rs scale s = Inr s'"
  shows "0 \<le> n s" "length (vel s') = nat (n s)" "pos s' = pos s" "n s' = n s"
    "simulation_mode s' = simulation_mode s" "physical_param s' = physical_param s"
    "box_size s' = box_size s"
  using assms
  by (auto simp add: velocities_from_scale_def maxwell_rvs_def np_random_rand_def Let_def
      split: sum.splits npfloat.splits if_splits)

lemma velocities_from_scale_fails:
  "velocities_from_scale rs scale s = Inl e \<longleftrightarrow>
     e = ValueError \<and> (scale = NaN \<or> (\<exists>sc. scale = Fin sc \<and> sc < 0) \<or> n s < 0)"
  by (cases scale)
    (auto simp add: velocities_from_scale_def maxwell_rvs_def np_random_rand_def Let_def
      split: sum.splits if_splits)

lemma initialize_velocities_Inr:
  assumes "initialize_velocities rs s = Inr s'"
  shows "0 \<le> n s" "length (vel s') = nat (n s)" "pos s' = pos s" "n s' = n s"
    "simulation_mode s' = simulation_mode s" "physical_param s' = physical_param s"
    "box_size s' = box_size s"
proof -
  from assms obtain scale where "velocities_from_scale rs scale s = Inr s'"
    by (auto simp add: initialize_velocities_def split: sum.splits if_splits)
  from velocities_from_scale_Inr [OF this]
  show "0 \<le> n s" "length (vel s') = nat (n s)" "pos s' = pos s" "n s' = n s"
    "simulation_mode s' = simulation_mode s" "physical_param s' = physical_param s"
    "box_size s' = box_size s"
    by simp_all
qed

lemma initialize_velocities_fails:
  "initialize_velocities rs s = Inl e \<longleftrightarrow>
     (e = ZeroDivisionError \<and> physical_param s = 0 \<and> simulation_mode s \<noteq> ''temperature'') \<or>
     (e = ValueError \<and>
        (physical_param s < 0 \<or>
         (n s < 0 \<and> (physical_param s = 0 \<longrightarrow> simulation_mode s = ''temperature''))))"
  by (auto simp add: initialize_velocities_def velocities_from_scale_fails py_div_def np_sqrt_def
      split: sum.splits if_splits)

lemma init_Inr:
  assumes "ParticleSystem_init rs k m p = Inr s"
  shows "0 \<le> k" "length (pos s) = nat k" "length (vel s) = nat k" "n s = k"
    "simulation_mode s = m" "physical_param s = p" "box_size s = 15"
proof -
  from assms have k: "0 \<le> k"
    by (auto simp add: ParticleSystem_init_def np_random_rand2_def split: if_splits)
  define t where "t = \<lparr>n = k, simulation_mode = m, physical_param = p, box_size = 15,
             pos = map (\<lambda>(a, b). (a * 15, b * 15)) (map (rand_rows rs) [0..<nat k]), vel = []\<rparr>"
  from assms k have "initialize_velocities rs t = Inr s"
    by (simp add: ParticleSystem_init_def np_random_rand2_def t_def)
  from initialize_velocities_Inr [OF this] k
  show "0 \<le> k" "length (pos s) = nat k" "length (vel s) = nat k" "n s = k"
    "simulation_mode s = m" "physical_param s = p" "box_size s = 15"
    by (simp_all add: t_def)
qed

lemma init_fails:
  "ParticleSystem_init rs k m p = Inl e \<longleftrightarrow>
     (e = ValueError \<and> (k < 0 \<or> p < 0)) \<or>
     (e = ZeroDivisionError \<and> 0 \<le> k \<and> p = 0 \<and> m \<noteq> ''temperature'')"
  by (auto simp add: ParticleSystem_init_def np_random_rand2_def initialize_velocities_fails)

lemma init_succeeds:
  assumes "0 \<le> k" and "0 < p \<or> (p = 0 \<and> m = ''temperature'')"
  shows "\<exists>s. ParticleSystem_init rs k m p = Inr s"
proof (cases "ParticleSystem_init rs k m p")
  case (Inl e)
  with assms show ?thesis
    by (auto simp add: init_fails)
next
  case (Inr s)
  then show ?thesis by blast
qed

lemma update_shape_ok:
  assumes "shape_ok s"
  shows "\<exists>s'. update s = Inr s' \<and> shape_ok s' \<and> n s' = n s"
proof -
  from assms have "length (pos s) = length (vel s)"
    by (simp add: shape_ok_def)
  from update_total [OF this] obtain s' where u: "update s = Inr s'" ..
  from update_fields [OF u] assms have "shape_ok s'" "n s' = n s"
    by (simp_all add: shape_ok_def)
  with u show ?thesis by blast
qed

lemma update_times_shape_ok:
  "shape_ok s \<Longrightarrow> \<exists>s'. update_times j s = Inr s' \<and> shape_ok s' \<and> n s' = n s"
proof (induction j arbitrary: s)
  case 0
  then show ?case by simp
next
  case (Suc j)
  from update_shape_ok [OF Suc.prems] obtain t
    where t: "update s = Inr t" "shape_ok t" "n t = n s" by blast
  from Suc.IH [OF t(2)] obtain s'
    where "update_times j t = Inr s'" "shape_ok s'" "n s' = n t" by blast
  with t show ?case by simp
qed

lemma upt_2: "[0..<2] = [0, Suc 0]"
  by (simp add: numeral_2_eq_2)

lemma init_example: "ParticleSystem_init constant_source 2 ''temperature'' 3 = Inr constructed_state"
  by (simp add: ParticleSystem_init_def np_random_rand2_def initialize_velocities_def
      velocities_from_scale_def maxwell_rvs_def np_random_rand_def constant_source_def
      constructed_state_def upt_2 Let_def)

text \<open>
  Claim C7. Whenever construction returns an object, in particular for every positive count
  (with a positive \<open>physical_param\<close> it does return one), \<open>pos\<close> and \<open>vel\<close> have
  \<open>self.n\<close> rows each; every later call of \<open>update\<close> returns normally and keeps both
  lengths and \<open>self.n\<close>. (\<open>speeds\<close> and \<open>get_characteristic_speeds\<close> only read the
  object.)
\<close>

theorem shape_invariant:
  "(ParticleSystem_init rs k m p = Inr s \<longrightarrow> shape_ok s \<and> n s = k) \<and>
   (0 < k \<and> 0 < p \<longrightarrow> (\<exists>s0. ParticleSystem_init rs k m p = Inr s0)) \<and>
   (shape_ok t \<longrightarrow> (\<exists>t'. update_times j t = Inr t' \<and> shape_ok t' \<and> n t' = n t))"
proof (intro conjI impI)
  assume "ParticleSystem_init rs k m p = Inr s"
  from init_Inr [OF this] show "shape_ok s" "n s = k"
    by (simp_all add: shape_ok_def)
next
  assume "0 < k \<and> 0 < p"
  then show "\<exists>s0. ParticleSystem_init rs k m p = Inr s0"
    by (intro init_succeeds) simp_all
next
  assume "shape_ok t"
  then show "\<exists>t'. update_times j t = Inr t' \<and> shape_ok t' \<and> n t' = n t"
    by (rule update_times_shape_ok)
qed

theorem shape_invariant_witness:
  "ParticleSystem_init constant_source 2 ''temperature'' 3 = Inr constructed_state \<and>
   shape_ok constructed_state \<and> length (pos constructed_state) = 2 \<and>
   length (vel constructed_state) = 2 \<and>
   (\<exists>t'. update_times 3 constructed_state = Inr t' \<and> shape_ok t' \<and> n t' = 2)"
  using shape_invariant [of constant_source 2 "''temperature''" 3 constructed_state
      constructed_state 3] init_example
  by (simp add: constructed_state_def)

subsection \<open>What construction accepts\<close>

lemma get_characteristic_speeds_fails:
  "get_characteristic_speeds s = Inl e \<longleftrightarrow>
     e = ZeroDivisionError \<and> physical_param s = 0 \<and> simulation_mode s \<noteq> ''temperature''"
  by (auto simp add: get_characteristic_speeds_def py_div_def split: sum.splits if_splits)

text \<open>
  Claim C4 says that construction fails for every non-positive count and for every
  non-positive \<open>physical_param\<close>. It does not: with count 0 it returns an object with empty
  arrays, and with \<open>physical_param = 0\<close> in temperature mode an object whose velocities are
  all zero.
\<close>

theorem construction_fails_counterexample:
  "ParticleSystem_init constant_source 0 ''temperature'' 1 = Inr empty_state \<and>
   ParticleSystem_init constant_source 2 ''temperature'' 0 = Inr still_state"
  by (simp add: ParticleSystem_init_def np_random_rand2_def initialize_velocities_def
      velocities_from_scale_def maxwell_rvs_def np_random_rand_def constant_source_def
      empty_state_def still_state_def upt_2 Let_def)

text \<open>
  Claim C4, amended. \<open>__init__\<close> checks nothing itself. Construction fails exactly when a
  library call or the division rejects the value: with \<open>ValueError\<close> for a negative count
  (\<open>np.random.rand\<close>) or a negative \<open>physical_param\<close> (\<open>maxwell.rvs\<close>, on a negative or
  NaN scale), with \<open>ZeroDivisionError\<close> for \<open>physical_param = 0\<close> in a mode other than
  \<open>'temperature'\<close>. The scale computation of \<open>get_characteristic_speeds\<close> fails exactly in
  the last case.
\<close>

theorem construction_failures:
  "(ParticleSystem_init rs k m p = Inl e \<longleftrightarrow>
      (e = ValueError \<and> (k < 0 \<or> p < 0)) \<or>
      (e = ZeroDivisionError \<and> 0 \<le> k \<and> p = 0 \<and> m \<noteq> ''temperature'')) \<and>
   (get_characteristic_speeds s = Inl e \<longleftrightarrow>
      e = ZeroDivisionError \<and> physical_param s = 0 \<and> simulation_mode s \<noteq> ''temperature'')"
  by (simp only: init_fails get_characteristic_speeds_fails)

theorem construction_failures_witness:
  "ParticleSystem_init constant_source (- 1) ''temperature'' 1 = Inl ValueError \<and>
   ParticleSystem_init constant_source 5 ''mass'' (- 1) = Inl ValueError \<and>
   ParticleSystem_init constant_source 5 ''temperature'' (- 1) = Inl ValueError \<and>
   ParticleSystem_init constant_source 5 ''mass'' 0 = Inl ZeroDivisionError \<and>
   get_characteristic_speeds (example_state\<lparr>simulation_mode := ''mass'', physical_param := 0\<rparr>) =
     Inl ZeroDivisionError"
  using construction_failures [of constant_source "- 1" "''temperature''" 1 ValueError]
    construction_failures [of constant_source 5 "''mass''" "- 1" ValueError]
    construction_failures [of constant_source 5 "''temperature''" "- 1" ValueError]
    construction_failures [of constant_source 5 "''mass''" 0 ZeroDivisionError
      "example_state\<lparr>simulation_mode := ''mass'', physical_param := 0\<rparr>"]
  by simp

text \<open>
  Claim C10. The mode is never validated: for every mode string other than
  \<open>'temperature'\<close>, construction does what it does for \<open>'mass'\<close> (only the stored mode
  differs) and so does \<open>get_characteristic_speeds\<close>; for a positive \<open>physical_param\<close> both
  use the scale \<open>sqrt (1 / physical_param)\<close>, and construction with a count that is not
  negative returns an object: no error is raised for the mode.
\<close>

theorem mode_never_validated:
  assumes "m \<noteq> ''temperature''"
  shows "ParticleSystem_init rs k m p =
           map_sum id (\<lambda>t. t\<lparr>simulation_mode := m\<rparr>) (ParticleSystem_init rs k ''mass'' p) \<and>
         get_characteristic_speeds (s\<lparr>simulation_mode := m\<rparr>) =
           get_characteristic_speeds (s\<lparr>simulation_mode := ''mass''\<rparr>) \<and>
         (0 < physical_param s \<longrightarrow>
            initialize_velocities rs (s\<lparr>simulation_mode := m\<rparr>) =
              velocities_from_scale rs (Fin (sqrt (1 / physical_param s)))
                (s\<lparr>simulation_mode := m\<rparr>) \<and>
            get_characteristic_speeds (s\<lparr>simulation_mode := m\<rparr>) =
              Inr (speeds_from_scale (Fin (sqrt (1 / physical_param s))))) \<and>
         (0 \<le> k \<and> 0 < p \<longrightarrow>
            (\<exists>t. ParticleSystem_init rs k m p = Inr t \<and> simulation_mode t = m))"
proof (intro conjI impI)
  show "ParticleSystem_init rs k m p =
           map_sum id (\<lambda>t. t\<lparr>simulation_mode := m\<rparr>) (ParticleSystem_init rs k ''mass'' p)"
    using assms
    by (simp add: ParticleSystem_init_def np_random_rand2_def initialize_velocities_def
        velocities_from_scale_def maxwell_rvs_def np_random_rand_def py_div_def np_sqrt_def
        Let_def)
  show "get_characteristic_speeds (s\<lparr>simulation_mode := m\<rparr>) =
           get_characteristic_speeds (s\<lparr>simulation_mode := ''mass''\<rparr>)"
    using assms by (simp add: get_characteristic_speeds_def)
  show "initialize_velocities rs (s\<lparr>simulation_mode := m\<rparr>) =
              velocities_from_scale rs (Fin (sqrt (1 / physical_param s)))
                (s\<lparr>simulation_mode := m\<rparr>)" if "0 < physical_param s"
    using assms that by (simp add: initialize_velocities_other)
  show "get_characteristic_speeds (s\<lparr>simulation_mode := m\<rparr>) =
              Inr (speeds_from_scale (Fin (sqrt (1 / physical_param s))))" if "0 < physical_param s"
    using assms that by (simp add: get_characteristic_speeds_other)
  show "\<exists>t. ParticleSystem_init rs k m p = Inr t \<and> simulation_mode t = m" if "0 \<le> k \<and> 0 < p"
  proof -
    from that init_succeeds [of k p m rs] obtain t where t: "ParticleSystem_init rs k m p = Inr t"
      by auto
    from init_Inr(5) [OF t] t show ?thesis by blast
  qed
qed

theorem mode_never_validated_witness:
  "''plasma'' \<noteq> ''temperature'' \<and>
   get_characteristic_speeds (example_state\<lparr>physical_param := 4, simulation_mode := ''plasma''\<rparr>) =
     Inr (speeds_from_scale (Fin (sqrt (1 / 4)))) \<and>
   (\<exists>t. ParticleSystem_init constant_source 2 ''plasma'' 4 = Inr t \<and> simulation_mode t = ''plasma'')"
proof -
  have ne: "''plasma'' \<noteq> ''temperature''"
    by simp
  have pp: "0 < physical_param (example_state\<lparr>physical_param := 4\<rparr>)"
      "physical_param (example_state\<lparr>physical_param := 4\<rparr>) = 4"
    by simp_all
  have kp: "(0::int) \<le> 2 \<and> (0::real) < 4"
    by simp
  note th = mode_never_validated [OF ne, of constant_source 2 4 "example_state\<lparr>physical_param := 4\<rparr>"]
  from th pp(1)
  have "get_characteristic_speeds (example_state\<lparr>physical_param := 4, simulation_mode := ''plasma''\<rparr>) =
     Inr (speeds_from_scale (Fin (sqrt (1 / physical_param (example_state\<lparr>physical_param := 4\<rparr>)))))"
    by blast
  moreover from th kp
  have "\<exists>t. ParticleSystem_init constant_source 2 ''plasma'' 4 = Inr t \<and> simulation_mode t = ''plasma''"
    by blast
  ultimately show ?thesis
    using ne by (simp only: pp(2) simp_thms)
qed

end
